theory Spec2Isabelle
  imports
    Complex_Main
    "HOL-Library.Multiset"
    "HOL-Library.Sublist"
    "HOL-Library.Char_ord"
    "HOL-Library.List_Lexorder"
    "HOL-Library.Product_Lexorder"
begin

section \<open>Data model\<close>

text \<open>
  One row of the table read from \<^verbatim>\<open>Public_Transport_Usage_Trends2.csv\<close>. The script
  \<^verbatim>\<open>project_main.py\<close> reads seven columns. A cell of one of the two text columns can be
  missing: \<^verbatim>\<open>read_csv\<close> reads an empty cell, and a cell that spells \<^verbatim>\<open>NA\<close>,
  \<^verbatim>\<open>N/A\<close> or \<^verbatim>\<open>null\<close>, as the missing value, which is \<open>None\<close> here. The numeric
  measure columns hold finite numbers; they are modelled as exact rationals, so the
  rounding error of binary floating point and the wrap-around of 64-bit sums are outside
  this model. What the model does keep of floating point is the part the script's control
  flow and its ratios depend on: the non-finite results of a division by zero, and the
  negative zero that rounding produces (type \<open>xnum\<close> below).
\<close>

record usage_row =
  Country :: "string option"
  Year :: int
  Transport_Type :: "string option"
  Annual_Usage :: rat
  Customer_Satisfaction_Score :: rat
  CO2_Emissions_kg_per_passenger :: rat
  Urbanization_Rate :: rat

text \<open>
  The values of the four sidebar widgets (lines 22 to 45). The options of the two
  multiselect widgets are the distinct values of the column, the missing value among
  them when the column has one.
\<close>

record filter_params =
  countries :: "string option list"
  years :: "int \<times> int"
  transport_types :: "string option list"
  min_satisfaction :: rat

subsection \<open>Numbers computed by the script\<close>

text \<open>
  A numpy float: a finite value, negative zero, one of the two infinities, or
  not-a-number. numpy division does not raise on a zero divisor (it warns and returns
  \<open>inf\<close>, \<open>-inf\<close> or \<open>nan\<close>), and the sign of the infinity depends on the sign of
  the zero. \<open>NZero\<close> is the zero with the sign bit set. The script divides by sums and
  means of table cells and by rounded means; of these only a rounded mean can be a
  negative zero (a table cell is a rational here, so none is), and rounding yields
  \<open>NZero\<close> there. \<open>Fin 0\<close> is any other zero: the zero of a sum or mean, and a product,
  difference or quotient that is zero, whose sign is not recorded (the two zeros compare
  equal, and the script divides by no such value).
\<close>

datatype xnum = Fin rat | NZero | PInf | NInf | NaN



definition signed_inf :: "rat \<Rightarrow> xnum" where
  "signed_inf a = (if a = 0 then NaN else if 0 < a then PInf else NInf)"

fun xsub :: "xnum \<Rightarrow> xnum \<Rightarrow> xnum" where
  "xsub NaN _ = NaN"
| "xsub _ NaN = NaN"
| "xsub (Fin a) (Fin b) = Fin (a - b)"
| "xsub (Fin a) NZero = Fin a"
| "xsub NZero (Fin b) = Fin (- b)"
| "xsub NZero NZero = Fin 0"
| "xsub PInf PInf = NaN"
| "xsub NInf NInf = NaN"
| "xsub PInf _ = PInf"
| "xsub NInf _ = NInf"
| "xsub _ PInf = NInf"
| "xsub _ NInf = PInf"

fun xmul :: "xnum \<Rightarrow> xnum \<Rightarrow> xnum" where
  "xmul NaN _ = NaN"
| "xmul _ NaN = NaN"
| "xmul (Fin a) (Fin b) = Fin (a * b)"
| "xmul (Fin a) NZero = Fin 0"
| "xmul NZero (Fin b) = Fin 0"
| "xmul NZero NZero = Fin 0"
| "xmul (Fin a) PInf = signed_inf a"
| "xmul (Fin a) NInf = signed_inf (- a)"
| "xmul PInf (Fin b) = signed_inf b"
| "xmul NInf (Fin b) = signed_inf (- b)"
| "xmul NZero PInf = NaN"
| "xmul NZero NInf = NaN"
| "xmul PInf NZero = NaN"
| "xmul NInf NZero = NaN"
| "xmul PInf PInf = PInf"
| "xmul NInf NInf = PInf"
| "xmul PInf NInf = NInf"
| "xmul NInf PInf = NInf"

fun xdiv :: "xnum \<Rightarrow> xnum \<Rightarrow> xnum" where
  "xdiv NaN _ = NaN"
| "xdiv _ NaN = NaN"
| "xdiv (Fin a) (Fin b) = (if b = 0 then signed_inf a else Fin (a / b))"
| "xdiv (Fin a) NZero = signed_inf (- a)"
| "xdiv NZero (Fin b) = (if b = 0 then NaN else Fin 0)"
| "xdiv NZero NZero = NaN"
| "xdiv (Fin a) PInf = Fin 0"
| "xdiv (Fin a) NInf = Fin 0"
| "xdiv NZero PInf = Fin 0"
| "xdiv NZero NInf = Fin 0"
| "xdiv PInf (Fin b) = (if 0 \<le> b then PInf else NInf)"
| "xdiv NInf (Fin b) = (if 0 \<le> b then NInf else PInf)"
| "xdiv PInf NZero = NInf"
| "xdiv NInf NZero = PInf"
| "xdiv PInf PInf = NaN"
| "xdiv NInf NInf = NaN"
| "xdiv PInf NInf = NaN"
| "xdiv NInf PInf = NaN"

text \<open>Comparisons: every comparison with not-a-number is false, and the two zeros
  compare equal.\<close>

fun xless :: "xnum \<Rightarrow> xnum \<Rightarrow> bool" where
  "xless NaN _ = False"
| "xless _ NaN = False"
| "xless (Fin a) (Fin b) = (a < b)"
| "xless (Fin a) NZero = (a < 0)"
| "xless NZero (Fin b) = (0 < b)"
| "xless NZero NZero = False"
| "xless (Fin a) PInf = True"
| "xless NZero PInf = True"
| "xless (Fin a) NInf = False"
| "xless NZero NInf = False"
| "xless PInf _ = False"
| "xless NInf (Fin b) = True"
| "xless NInf NZero = True"
| "xless NInf PInf = True"
| "xless NInf NInf = False"

definition xgreater :: "xnum \<Rightarrow> xnum \<Rightarrow> bool" where
  "xgreater a b = xless b a"

subsection \<open>Column operations of the table library\<close>

text \<open>
  \<^verbatim>\<open>Series.isin\<close>, \<^verbatim>\<open>Series.between\<close> (inclusive on both sides), the comparison
  \<^verbatim>\<open>>=\<close> of a column with a scalar and the element-wise \<^verbatim>\<open>&\<close> each give a column
  of booleans; \<^verbatim>\<open>df[mask]\<close> keeps the rows whose mask entry is true.
\<close>

definition isin :: "'a list \<Rightarrow> 'a list \<Rightarrow> bool list" where
  "isin col vals = map (\<lambda>v. v \<in> set vals) col"

definition between :: "int list \<Rightarrow> int \<Rightarrow> int \<Rightarrow> bool list" where
  "between col lo hi = map (\<lambda>v. lo \<le> v \<and> v \<le> hi) col"

definition ge_scalar :: "rat list \<Rightarrow> rat \<Rightarrow> bool list" where
  "ge_scalar col x = map (\<lambda>v. x \<le> v) col"

definition mask_and :: "bool list \<Rightarrow> bool list \<Rightarrow> bool list" where
  "mask_and m1 m2 = map (\<lambda>(a, b). a \<and> b) (zip m1 m2)"

definition boolean_index :: "'a list \<Rightarrow> bool list \<Rightarrow> 'a list" where
  "boolean_index df m = map fst (filter snd (zip df m))"

text \<open>\<^verbatim>\<open>Series.sum\<close> and \<^verbatim>\<open>Series.mean\<close>; the mean of no values is not-a-number.\<close>

definition col_sum :: "rat list \<Rightarrow> rat" where
  "col_sum col = sum_list col"

definition col_mean :: "rat list \<Rightarrow> xnum" where
  "col_mean col = (if col = [] then NaN else Fin (sum_list col / of_nat (length col)))"

text \<open>\<^verbatim>\<open>Series.max\<close>; not-a-number on an empty column.\<close>

definition col_max :: "rat list \<Rightarrow> xnum" where
  "col_max col = (case col of [] \<Rightarrow> NaN | v # vs \<Rightarrow> Fin (fold max vs v))"

text \<open>\<^verbatim>\<open>Series.unique\<close>: the distinct values in order of first appearance.\<close>

definition unique :: "'a list \<Rightarrow> 'a list" where
  "unique col = rev (remdups (rev col))"

section \<open>Filter (lines 48 to 53)\<close>

definition filtered_df :: "usage_row list \<Rightarrow> filter_params \<Rightarrow> usage_row list" where
  "filtered_df df p =
     boolean_index df
       (mask_and
          (mask_and
             (mask_and
                (isin (map Country df) (countries p))
                (between (map Year df) (fst (years p)) (snd (years p))))
             (isin (map Transport_Type df) (transport_types p)))
          (ge_scalar (map Customer_Satisfaction_Score df) (min_satisfaction p)))"

section \<open>Key figures (lines 60 to 89)\<close>

text \<open>\<^verbatim>\<open>filtered_df[filtered_df['Year'] == y]['Annual_Usage'].sum()\<close>\<close>

definition eq_scalar :: "int list \<Rightarrow> int \<Rightarrow> bool list" where
  "eq_scalar col y = map (\<lambda>v. v = y) col"

definition usage_in_year :: "usage_row list \<Rightarrow> int \<Rightarrow> rat" where
  "usage_in_year f y =
     col_sum (map Annual_Usage (boolean_index f (eq_scalar (map Year f) y)))"

definition total_usage :: "usage_row list \<Rightarrow> rat" where
  "total_usage f = col_sum (map Annual_Usage f)"

definition growth_rate :: "usage_row list \<Rightarrow> int \<times> int \<Rightarrow> xnum" where
  "growth_rate f yrs =
     (if snd yrs \<noteq> fst yrs
      then xmul
             (xdiv (xsub (Fin (usage_in_year f (snd yrs))) (Fin (usage_in_year f (fst yrs))))
                   (Fin (usage_in_year f (fst yrs))))
             (Fin 100)
      else Fin 0)"

definition avg_satisfaction :: "usage_row list \<Rightarrow> xnum" where
  "avg_satisfaction f = col_mean (map Customer_Satisfaction_Score f)"

definition best_satisfaction :: "usage_row list \<Rightarrow> xnum" where
  "best_satisfaction df = col_max (map Customer_Satisfaction_Score df)"

definition avg_emissions :: "usage_row list \<Rightarrow> xnum" where
  "avg_emissions f = col_mean (map CO2_Emissions_kg_per_passenger f)"

definition efficiency_score :: "usage_row list \<Rightarrow> xnum" where
  "efficiency_score f =
     xdiv (xdiv (xmul (avg_satisfaction f) (Fin (total_usage f))) (Fin 1000000))
          (avg_emissions f)"

definition countries_count :: "usage_row list \<Rightarrow> nat" where
  "countries_count f = length (unique (map Country f))"

section \<open>Grouping by country and transport type\<close>


definition group_key :: "usage_row \<Rightarrow> (string \<times> string) option" where
  "group_key r =
     (case Country r of
        None \<Rightarrow> None
      | Some c \<Rightarrow> (case Transport_Type r of None \<Rightarrow> None | Some t \<Rightarrow> Some (c, t)))"

definition group_keys :: "usage_row list \<Rightarrow> (string \<times> string) list" where
  "group_keys f = sort (remdups (List.map_filter group_key f))"

definition group_rows :: "usage_row list \<Rightarrow> string \<times> string \<Rightarrow> usage_row list" where
  "group_rows f k = filter (\<lambda>r. group_key r = Some k) f"

text \<open>\<^verbatim>\<open>groupby(['Year', 'Transport_Type'])['Annual_Usage'].sum().reset_index()\<close> (line 146),
  with the same defaults.\<close>

definition year_key :: "usage_row \<Rightarrow> (int \<times> string) option" where
  "year_key r = (case Transport_Type r of None \<Rightarrow> None | Some t \<Rightarrow> Some (Year r, t))"

definition yearly_data :: "usage_row list \<Rightarrow> ((int \<times> string) \<times> rat) list" where
  "yearly_data f =
     map (\<lambda>k. (k, col_sum (map Annual_Usage (filter (\<lambda>r. year_key r = Some k) f))))
         (sort (remdups (List.map_filter year_key f)))"

section \<open>Detailed metrics table (lines 253 to 265)\<close>

text \<open>
  \<^verbatim>\<open>DataFrame.round(2)\<close>: scale by 100, round to the nearest integer with ties to the
  even one, scale back; a non-finite cell is left as it is. A negative number that
  rounds to zero gives the negative zero.
\<close>

definition rint :: "rat \<Rightarrow> int" where
  "rint q =
     (let fl = \<lfloor>q\<rfloor>; d = q - of_int fl
      in if d < 1 / 2 then fl
         else if 1 / 2 < d then fl + 1
         else if even fl then fl else fl + 1)"

definition round2 :: "rat \<Rightarrow> rat" where
  "round2 q = of_int (rint (q * 100)) / 100"

fun xround2 :: "xnum \<Rightarrow> xnum" where
  "xround2 (Fin q) = (if q < 0 \<and> rint (q * 100) = 0 then NZero else Fin (round2 q))"
| "xround2 x = x"

record agg_row =
  Group_Country :: string
  Group_Transport_Type :: string
  Total_Usage :: xnum
  Avg_Annual_Usage :: xnum
  Avg_Satisfaction :: xnum
  Avg_CO2_Emissions :: xnum
  Avg_Urbanization :: xnum

record display_row = agg_row +
  Usage_per_Urban :: xnum
  Satisfaction_Efficiency :: xnum

text \<open>The \<^verbatim>\<open>agg\<close> call of lines 253 to 257, for the group of key \<open>k\<close>.\<close>

definition agg_group :: "usage_row list \<Rightarrow> string \<times> string \<Rightarrow> agg_row" where
  "agg_group f k =
     \<lparr> Group_Country = fst k,
       Group_Transport_Type = snd k,
       Total_Usage = Fin (col_sum (map Annual_Usage (group_rows f k))),
       Avg_Annual_Usage = col_mean (map Annual_Usage (group_rows f k)),
       Avg_Satisfaction = col_mean (map Customer_Satisfaction_Score (group_rows f k)),
       Avg_CO2_Emissions = col_mean (map CO2_Emissions_kg_per_passenger (group_rows f k)),
       Avg_Urbanization = col_mean (map Urbanization_Rate (group_rows f k)) \<rparr>"

text \<open>\<^verbatim>\<open>.round(2)\<close> of line 258, applied to the five numeric columns.\<close>

definition round_agg :: "agg_row \<Rightarrow> agg_row" where
  "round_agg a =
     a\<lparr> Total_Usage := xround2 (Total_Usage a),
        Avg_Annual_Usage := xround2 (Avg_Annual_Usage a),
        Avg_Satisfaction := xround2 (Avg_Satisfaction a),
        Avg_CO2_Emissions := xround2 (Avg_CO2_Emissions a),
        Avg_Urbanization := xround2 (Avg_Urbanization a) \<rparr>"

text \<open>Lines 264 and 265: the two ratio columns, computed from the columns of the table.\<close>

definition add_ratios :: "agg_row \<Rightarrow> display_row" where
  "add_ratios a =
     \<lparr> Group_Country = Group_Country a,
       Group_Transport_Type = Group_Transport_Type a,
       Total_Usage = Total_Usage a,
       Avg_Annual_Usage = Avg_Annual_Usage a,
       Avg_Satisfaction = Avg_Satisfaction a,
       Avg_CO2_Emissions = Avg_CO2_Emissions a,
       Avg_Urbanization = Avg_Urbanization a,
       Usage_per_Urban = xdiv (Total_Usage a) (Avg_Urbanization a),
       Satisfaction_Efficiency = xdiv (Avg_Satisfaction a) (Avg_CO2_Emissions a) \<rparr>"

definition display_df :: "usage_row list \<Rightarrow> display_row list" where
  "display_df f = map (\<lambda>k. add_ratios (round_agg (agg_group f k))) (group_keys f)"

section \<open>Performance benchmarking (lines 177 to 188)\<close>

text \<open>
  The script's tables are objects that its variables refer to, and line 178 assigns a
  column in place. The tables therefore live in a heap, a list of frames addressed by
  position; a frame is the seven columns of the data model and, when it has been
  assigned, the extra column \<^verbatim>\<open>Performance_Score\<close>. A reference handed out by the
  operations below is always below the length of the heap.
\<close>

record frame =
  cells :: "usage_row list"
  score_column :: "rat list option"

type_synonym heap = "frame list"

datatype error = EmptyResultError | KeyError string

text \<open>\<^verbatim>\<open>DataFrame.copy()\<close> (a deep copy): a new object with the same contents.\<close>

definition frame_copy :: "heap \<Rightarrow> nat \<Rightarrow> heap \<times> nat" where
  "frame_copy h a = (h @ [h ! a], length h)"

definition Performance_Score_row :: "usage_row \<Rightarrow> rat" where
  "Performance_Score_row r =
     Customer_Satisfaction_Score r * 20 + (100 - CO2_Emissions_kg_per_passenger r) * (1 / 2)"

text \<open>Lines 178 to 181: the column assignment, in place, on the object at \<open>c\<close>.\<close>

definition set_Performance_Score :: "heap \<Rightarrow> nat \<Rightarrow> heap" where
  "set_Performance_Score h c =
     h[c := (h ! c)\<lparr> score_column := Some (map Performance_Score_row (cells (h ! c))) \<rparr>]"

record perf_row =
  Perf_Country :: string
  Perf_Transport_Type :: string
  Performance_Score :: xnum
  Sum_Annual_Usage :: rat
  Mean_Satisfaction :: xnum
  Mean_CO2_Emissions :: xnum

text \<open>The \<^verbatim>\<open>agg\<close> call of lines 183 to 187 for the group of key \<open>k\<close>, on rows paired
  with their cell of the score column.\<close>

definition agg_perf :: "(usage_row \<times> rat) list \<Rightarrow> string \<times> string \<Rightarrow> perf_row" where
  "agg_perf zs k =
     (let g = filter (\<lambda>z. group_key (fst z) = Some k) zs
      in \<lparr> Perf_Country = fst k,
           Perf_Transport_Type = snd k,
           Performance_Score = col_mean (map snd g),
           Sum_Annual_Usage = col_sum (map (\<lambda>z. Annual_Usage (fst z)) g),
           Mean_Satisfaction = col_mean (map (\<lambda>z. Customer_Satisfaction_Score (fst z)) g),
           Mean_CO2_Emissions =
             col_mean (map (\<lambda>z. CO2_Emissions_kg_per_passenger (fst z)) g) \<rparr>)"

text \<open>Aggregating a column that the frame does not have raises \<^verbatim>\<open>KeyError\<close>.\<close>

definition perf_groups :: "frame \<Rightarrow> error + perf_row list" where
  "perf_groups fr =
     (case score_column fr of
        None \<Rightarrow> Inl (KeyError ''Performance_Score'')
      | Some sc \<Rightarrow> Inr (map (agg_perf (zip (cells fr) sc)) (group_keys (cells fr))))"

text \<open>
  \<^verbatim>\<open>sort_values('Performance_Score', ascending=False)\<close> is a call into the table
  library with its default algorithm (\<^verbatim>\<open>kind='quicksort'\<close>) and default
  \<^verbatim>\<open>na_position='last'\<close>: the result holds the same rows in descending order of the
  score, not-a-number last. The default algorithm is not a stable one, so which of two
  rows of equal score comes first is the library's choice and not the script's. That
  choice is the parameter \<open>tie\<close> of the model: of two rows of equal score the one with
  the smaller \<open>tie\<close> value comes first, and rows equal in both keep their given order.
  Nothing is assumed of \<open>tie\<close>; with a constant \<open>tie\<close> (\<open>given_order\<close>) rows of
  equal score keep their given order.
\<close>

definition desc_before :: "xnum \<Rightarrow> xnum \<Rightarrow> bool" where
  "desc_before x y = (y = NaN \<or> (x \<noteq> NaN \<and> \<not> xless x y))"

definition ranks_before :: "(perf_row \<Rightarrow> nat) \<Rightarrow> perf_row \<Rightarrow> perf_row \<Rightarrow> bool" where
  "ranks_before tie x g =
     (desc_before (Performance_Score x) (Performance_Score g) \<and>
      (\<not> desc_before (Performance_Score g) (Performance_Score x) \<or> tie x \<le> tie g))"

fun insert_ranked :: "(perf_row \<Rightarrow> nat) \<Rightarrow> perf_row \<Rightarrow> perf_row list \<Rightarrow> perf_row list" where
  "insert_ranked tie g [] = [g]"
| "insert_ranked tie g (x # xs) =
     (if ranks_before tie x g then x # insert_ranked tie g xs else g # x # xs)"

definition sort_values_desc :: "(perf_row \<Rightarrow> nat) \<Rightarrow> perf_row list \<Rightarrow> perf_row list" where
  "sort_values_desc tie gs = fold (insert_ranked tie) gs []"

definition given_order :: "perf_row \<Rightarrow> nat" where
  "given_order g = 0"

text \<open>Lines 177 to 188 as a whole, from the heap and the reference held by
  \<^verbatim>\<open>filtered_df\<close>: the new heap and \<^verbatim>\<open>top_performers\<close>.\<close>

definition performance_benchmark ::
  "(perf_row \<Rightarrow> nat) \<Rightarrow> heap \<Rightarrow> nat \<Rightarrow> error + (heap \<times> perf_row list)" where
  "performance_benchmark tie h a =
     (let (h1, c) = frame_copy h a;
          h2 = set_Performance_Score h1 c
      in case perf_groups (h2 ! c) of
           Inl e \<Rightarrow> Inl e
         | Inr gs \<Rightarrow> Inr (h2, sort_values_desc tie gs))"

section \<open>Insights (lines 221 to 243)\<close>

text \<open>
  Each message of the script is represented by its kind and the values it interpolates
  (the growth rate, the transport type); the wording and the number format are
  presentation.
\<close>

datatype insight =
  Strong_Growth xnum
| Declining_Usage xnum
| High_Satisfaction
| Low_Satisfaction
| Eco_Friendly
| High_Emissions
| Top_Performer string

definition best_transport :: "perf_row list \<Rightarrow> string" where
  "best_transport tp = (case tp of [] \<Rightarrow> ''N/A'' | g # _ \<Rightarrow> Perf_Transport_Type g)"

definition insights :: "xnum \<Rightarrow> xnum \<Rightarrow> xnum \<Rightarrow> perf_row list \<Rightarrow> insight list" where
  "insights growth avg_sat avg_em tp =
     (if xgreater growth (Fin 10) then [Strong_Growth growth]
      else if xless growth (Fin (- 5)) then [Declining_Usage growth]
      else [])
     @ (if xgreater avg_sat (Fin 4) then [High_Satisfaction]
        else if xless avg_sat (Fin 3) then [Low_Satisfaction]
        else [])
     @ (if xless avg_em (Fin 2) then [Eco_Friendly]
        else if xgreater avg_em (Fin 5) then [High_Emissions]
        else [])
     @ [Top_Performer (best_transport tp)]"

section \<open>The script as a whole\<close>

record analysis =
  kpi_total_usage :: rat
  kpi_growth_rate :: xnum
  kpi_avg_satisfaction :: xnum
  kpi_best_satisfaction :: xnum
  kpi_avg_emissions :: xnum
  kpi_efficiency_score :: xnum
  kpi_countries_count :: nat
  res_yearly_data :: "((int \<times> string) \<times> rat) list"
  res_top_performers :: "perf_row list"
  res_insights :: "insight list"
  res_display_df :: "display_row list"

text \<open>
  One run of the script on the loaded table \<open>df\<close> and the widget values \<open>p\<close>. The
  loaded table is the object at reference 0 and \<^verbatim>\<open>filtered_df\<close> (boolean indexing
  builds a new table) the object at reference 1. When the filtered table is empty the
  script shows the message "No data matches your filters" and stops at line 57; the run
  then ends in \<open>EmptyResultError\<close>. The charts, the correlation matrix and the text
  serialisation of the export (\<^verbatim>\<open>to_csv\<close> of the detailed table) are library calls
  that are not modelled; the exported table is \<open>res_display_df\<close>.
\<close>

definition engine ::
  "(perf_row \<Rightarrow> nat) \<Rightarrow> usage_row list \<Rightarrow> filter_params \<Rightarrow> error + analysis" where
  "engine tie df p =
     (let h0 = [\<lparr> cells = df, score_column = None \<rparr>];
          h1 = h0 @ [\<lparr> cells = filtered_df (cells (h0 ! 0)) p, score_column = None \<rparr>]
      in if cells (h1 ! 1) = [] then Inl EmptyResultError
         else
           (case performance_benchmark tie h1 1 of
              Inl e \<Rightarrow> Inl e
            | Inr (h2, tp) \<Rightarrow>
                Inr \<lparr> kpi_total_usage = total_usage (cells (h1 ! 1)),
                      kpi_growth_rate = growth_rate (cells (h1 ! 1)) (years p),
                      kpi_avg_satisfaction = avg_satisfaction (cells (h1 ! 1)),
                      kpi_best_satisfaction = best_satisfaction (cells (h1 ! 0)),
                      kpi_avg_emissions = avg_emissions (cells (h1 ! 1)),
                      kpi_efficiency_score = efficiency_score (cells (h1 ! 1)),
                      kpi_countries_count = countries_count (cells (h1 ! 1)),
                      res_yearly_data = yearly_data (cells (h1 ! 1)),
                      res_top_performers = tp,
                      res_insights =
                        insights (growth_rate (cells (h1 ! 1)) (years p))
                                 (avg_satisfaction (cells (h1 ! 1)))
                                 (avg_emissions (cells (h1 ! 1))) tp,
                      res_display_df = display_df (cells (h2 ! 1)) \<rparr>))"

section \<open>Example data\<close>

text \<open>The three-row table of the specification's example scenario.\<close>

definition row_A_2020 :: usage_row where
  "row_A_2020 =
     \<lparr> Country = Some ''A'', Year = 2020, Transport_Type = Some ''Bus'', Annual_Usage = 100,
       Customer_Satisfaction_Score = 9 / 2, CO2_Emissions_kg_per_passenger = 1,
       Urbanization_Rate = 50 \<rparr>"

definition row_A_2021 :: usage_row where
  "row_A_2021 =
     \<lparr> Country = Some ''A'', Year = 2021, Transport_Type = Some ''Bus'', Annual_Usage = 150,
       Customer_Satisfaction_Score = 23 / 5, CO2_Emissions_kg_per_passenger = 11 / 10,
       Urbanization_Rate = 52 \<rparr>"

definition row_B_2020 :: usage_row where
  "row_B_2020 =
     \<lparr> Country = Some ''B'', Year = 2020, Transport_Type = Some ''Rail'', Annual_Usage = 200,
       Customer_Satisfaction_Score = 3, CO2_Emissions_kg_per_passenger = 3,
       Urbanization_Rate = 60 \<rparr>"

definition example_df :: "usage_row list" where
  "example_df = [row_A_2020, row_A_2021, row_B_2020]"

definition all_params :: filter_params where
  "all_params =
     \<lparr> countries = [Some ''A'', Some ''B''], years = (2020, 2021),
       transport_types = [Some ''Bus'', Some ''Rail''], min_satisfaction = 3 \<rparr>"

text \<open>The same selection with no country chosen, and with the minimum satisfaction
  raised to the highest score of the table (4.6), which leaves only the 2021 row.\<close>

definition no_country_params :: filter_params where
  "no_country_params = all_params\<lparr> countries := [] \<rparr>"

definition strict_params :: filter_params where
  "strict_params = all_params\<lparr> min_satisfaction := 23 / 5 \<rparr>"

lemmas example_defs =
  example_df_def row_A_2020_def row_A_2021_def row_B_2020_def
  all_params_def no_country_params_def strict_params_def

















text \<open>
  A table whose country cells are all missing (as when every cell of the column spells
  \<^verbatim>\<open>NA\<close>), and the selection the widgets offer for it. A table whose emissions and
  urbanisation rates are slightly below zero, so that their means round to negative
  zero.
\<close>

definition row_N_2020 :: usage_row where
  "row_N_2020 =
     \<lparr> Country = None, Year = 2020, Transport_Type = Some ''Bus'', Annual_Usage = 100,
       Customer_Satisfaction_Score = 4, CO2_Emissions_kg_per_passenger = 1,
       Urbanization_Rate = 50 \<rparr>"

definition row_N_2021 :: usage_row where
  "row_N_2021 =
     \<lparr> Country = None, Year = 2021, Transport_Type = Some ''Bus'', Annual_Usage = 150,
       Customer_Satisfaction_Score = 9 / 2, CO2_Emissions_kg_per_passenger = 1,
       Urbanization_Rate = 52 \<rparr>"

definition missing_df :: "usage_row list" where
  "missing_df = [row_N_2020, row_N_2021]"

definition missing_params :: filter_params where
  "missing_params =
     \<lparr> countries = [None], years = (2020, 2021),
       transport_types = [Some ''Bus''], min_satisfaction = 4 \<rparr>"

lemmas missing_defs = missing_df_def row_N_2020_def row_N_2021_def missing_params_def





section \<open>The filter\<close>

lemma mask_and_map: "mask_and (map f xs) (map g xs) = map (\<lambda>x. f x \<and> g x) xs"
  by (induction xs) (simp_all add: mask_and_def)

lemma boolean_index_map: "boolean_index xs (map f xs) = filter f xs"
  by (induction xs) (simp_all add: boolean_index_def)

lemma filtered_df_filter:
  "filtered_df df p =
     filter (\<lambda>r. ((Country r \<in> set (countries p) \<and>
                   (fst (years p) \<le> Year r \<and> Year r \<le> snd (years p))) \<and>
                   Transport_Type r \<in> set (transport_types p)) \<and>
                   min_satisfaction p \<le> Customer_Satisfaction_Score r) df"
  by (simp add: filtered_df_def isin_def between_def ge_scalar_def o_def
      mask_and_map boolean_index_map)

text \<open>
  Claim C1. The filtered table holds exactly the rows of the raw table whose country is
  among the selected countries, whose year lies in the inclusive year range, whose
  transport type is among the selected types and whose satisfaction score is at least the
  minimum; the rows keep their relative order (the result is that sublist of the raw
  table), and an empty country selection or an empty transport-type selection gives an
  empty result.
\<close>

theorem filter_exact_rows:
  "filtered_df df p =
     filter (\<lambda>r. Country r \<in> set (countries p) \<and>
                  fst (years p) \<le> Year r \<and> Year r \<le> snd (years p) \<and>
                  Transport_Type r \<in> set (transport_types p) \<and>
                  min_satisfaction p \<le> Customer_Satisfaction_Score r) df
   \<and> subseq (filtered_df df p) df
   \<and> (countries p = [] \<or> transport_types p = [] \<longrightarrow> filtered_df df p = [])"
proof -
  have eq: "filtered_df df p =
     filter (\<lambda>r. Country r \<in> set (countries p) \<and>
                  fst (years p) \<le> Year r \<and> Year r \<le> snd (years p) \<and>
                  Transport_Type r \<in> set (transport_types p) \<and>
                  min_satisfaction p \<le> Customer_Satisfaction_Score r) df"
    by (simp add: filtered_df_filter)
  have sub: "subseq (filtered_df df p) df"
    by (simp add: eq)
  have emp: "countries p = [] \<or> transport_types p = [] \<longrightarrow> filtered_df df p = []"
    by (auto simp: eq)
  from eq sub emp show ?thesis by blast
qed

theorem filter_exact_rows_witness:
  "(countries no_country_params = [] \<or> transport_types no_country_params = [])
   \<and> filtered_df example_df no_country_params = []
   \<and> filtered_df example_df strict_params = [row_A_2021]
   \<and> filtered_df example_df all_params = example_df"
  using filter_exact_rows [of example_df no_country_params]
    filter_exact_rows [of example_df strict_params]
    filter_exact_rows [of example_df all_params]
  by (simp add: example_defs)

section \<open>The empty-result guard\<close>

text \<open>
  Claim C2. When the filtered table is empty the run ends in the empty-result error: the
  result carries no key figure, no aggregate, no ranking, no insight and no export table.
\<close>

theorem empty_result_stops:
  "filtered_df df p = [] \<Longrightarrow> engine tie df p = Inl EmptyResultError"
  by (simp add: engine_def)

theorem empty_result_stops_witness:
  "filtered_df example_df no_country_params = []
   \<and> engine given_order example_df no_country_params = Inl EmptyResultError"
proof -
  have h: "filtered_df example_df no_country_params = []"
    by (simp add: filtered_df_filter no_country_params_def)
  from h empty_result_stops [OF h, of given_order] show ?thesis by simp
qed

section \<open>Growth rate\<close>

lemma usage_in_year_filter:
  "usage_in_year f y = sum_list (map Annual_Usage (filter (\<lambda>r. Year r = y) f))"
  by (simp add: usage_in_year_def col_sum_def eq_scalar_def boolean_index_map o_def)

text \<open>
  Claim C3, as the specification states it, fails where the usage of the start year sums
  to zero: the script divides, and the quotient is not 0. With the minimum satisfaction
  at 4.6 the example table is filtered down to its 2021 row; the start-year sum is 0, the
  end-year sum is 150 and the growth rate is plus infinity.
\<close>

theorem growth_rate_zero_start_counterexample:
  "filtered_df example_df strict_params = [row_A_2021]
   \<and> usage_in_year (filtered_df example_df strict_params) (fst (years strict_params)) = 0
   \<and> growth_rate (filtered_df example_df strict_params) (years strict_params) = PInf
   \<and> growth_rate (filtered_df example_df strict_params) (years strict_params) \<noteq> Fin 0"
  by (simp add: filtered_df_filter usage_in_year_filter growth_rate_def signed_inf_def
      example_defs)

text \<open>
  Claim C3, amended. The growth rate is 0 when the two ends of the year range are equal.
  Otherwise, with \<open>U_start\<close> and \<open>U_end\<close> the sums of the annual usage over the
  filtered rows of the first and of the last year of the range, it is
  \<open>(U_end - U_start) / U_start * 100\<close> when \<open>U_start\<close> is not 0, and when \<open>U_start\<close>
  is 0 it is the quotient of the floating-point division: not-a-number when \<open>U_end\<close>
  is 0 too, plus infinity when \<open>U_end\<close> is positive, minus infinity when it is negative.
\<close>

theorem growth_rate_cases:
  "(fst yrs = snd yrs \<longrightarrow> growth_rate f yrs = Fin 0)
   \<and> (fst yrs \<noteq> snd yrs \<and> usage_in_year f (fst yrs) \<noteq> 0 \<longrightarrow>
        growth_rate f yrs =
          Fin ((usage_in_year f (snd yrs) - usage_in_year f (fst yrs))
               / usage_in_year f (fst yrs) * 100))
   \<and> (fst yrs \<noteq> snd yrs \<and> usage_in_year f (fst yrs) = 0 \<longrightarrow>
        growth_rate f yrs =
          (if usage_in_year f (snd yrs) = 0 then NaN
           else if 0 < usage_in_year f (snd yrs) then PInf else NInf))
   \<and> usage_in_year f (fst yrs) =
        sum_list (map Annual_Usage (filter (\<lambda>r. Year r = fst yrs) f))
   \<and> usage_in_year f (snd yrs) =
        sum_list (map Annual_Usage (filter (\<lambda>r. Year r = snd yrs) f))"
  by (auto simp: growth_rate_def signed_inf_def usage_in_year_filter)

theorem growth_rate_cases_witness:
  "growth_rate example_df (2020, 2020) = Fin 0
   \<and> usage_in_year example_df 2020 = 300 \<and> usage_in_year example_df 2021 = 150
   \<and> growth_rate example_df (2020, 2021) = Fin (- 50)
   \<and> usage_in_year [row_A_2021] 2020 = 0
   \<and> growth_rate [row_A_2021] (2020, 2021) = PInf"
  using growth_rate_cases [of "(2020, 2020)" example_df]
    growth_rate_cases [of "(2020, 2021)" example_df]
    growth_rate_cases [of "(2020, 2021)" "[row_A_2021]"]
  by (simp add: example_defs)

section \<open>Insight rules\<close>

text \<open>
  Claim C7. The insight list holds the strong-growth insight exactly when the growth rate
  exceeds 10, the declining-usage insight exactly when it is below -5, the
  high-satisfaction insight exactly when the average satisfaction exceeds 4.0, the
  low-satisfaction insight exactly when it is below 3.0, the eco-friendly insight exactly
  when the average emissions are below 2.0 and the high-emissions insight exactly when
  they exceed 5.0; it always holds the top-performer summary, which names the transport
  type of the first ranked group; no two insights of one pair occur together. The
  generator is a total function: it has no error result.
\<close>

theorem insights_rules:
  "((\<exists>g. Strong_Growth g \<in> set (insights gr sa em tp)) = xgreater gr (Fin 10))
   \<and> ((\<exists>g. Declining_Usage g \<in> set (insights gr sa em tp)) = xless gr (Fin (- 5)))
   \<and> ((High_Satisfaction \<in> set (insights gr sa em tp)) = xgreater sa (Fin 4))
   \<and> ((Low_Satisfaction \<in> set (insights gr sa em tp)) = xless sa (Fin 3))
   \<and> ((Eco_Friendly \<in> set (insights gr sa em tp)) = xless em (Fin 2))
   \<and> ((High_Emissions \<in> set (insights gr sa em tp)) = xgreater em (Fin 5))
   \<and> Top_Performer (best_transport tp) \<in> set (insights gr sa em tp)
   \<and> (\<forall>g gs. tp = g # gs \<longrightarrow> best_transport tp = Perf_Transport_Type g)
   \<and> \<not> ((\<exists>g. Strong_Growth g \<in> set (insights gr sa em tp))
          \<and> (\<exists>g. Declining_Usage g \<in> set (insights gr sa em tp)))
   \<and> \<not> (High_Satisfaction \<in> set (insights gr sa em tp)
          \<and> Low_Satisfaction \<in> set (insights gr sa em tp))
   \<and> \<not> (Eco_Friendly \<in> set (insights gr sa em tp)
          \<and> High_Emissions \<in> set (insights gr sa em tp))"
proof -
  have pair1: "\<not> (xgreater gr (Fin 10) \<and> xless gr (Fin (- 5)))"
    by (cases gr) (auto simp: xgreater_def)
  have pair2: "\<not> (xgreater sa (Fin 4) \<and> xless sa (Fin 3))"
    by (cases sa) (auto simp: xgreater_def)
  have pair3: "\<not> (xless em (Fin 2) \<and> xgreater em (Fin 5))"
    by (cases em) (auto simp: xgreater_def)
  have a: "(\<exists>g. Strong_Growth g \<in> set (insights gr sa em tp)) = xgreater gr (Fin 10)"
    by (auto simp: insights_def)
  have b: "(\<exists>g. Declining_Usage g \<in> set (insights gr sa em tp)) = xless gr (Fin (- 5))"
    using pair1 by (auto simp: insights_def)
  have c: "(High_Satisfaction \<in> set (insights gr sa em tp)) = xgreater sa (Fin 4)"
    by (auto simp: insights_def)
  have d: "(Low_Satisfaction \<in> set (insights gr sa em tp)) = xless sa (Fin 3)"
    using pair2 by (auto simp: insights_def)
  have e: "(Eco_Friendly \<in> set (insights gr sa em tp)) = xless em (Fin 2)"
    by (auto simp: insights_def)
  have f: "(High_Emissions \<in> set (insights gr sa em tp)) = xgreater em (Fin 5)"
    using pair3 by (auto simp: insights_def)
  have g: "Top_Performer (best_transport tp) \<in> set (insights gr sa em tp)"
    by (simp add: insights_def)
  have h: "\<forall>g gs. tp = g # gs \<longrightarrow> best_transport tp = Perf_Transport_Type g"
    by (simp add: best_transport_def)
  from a b c d e f g h pair1 pair2 pair3 show ?thesis by simp
qed

theorem insights_rules_witness:
  "(\<exists>g. Strong_Growth g \<in> set (insights (Fin 12) (Fin (9 / 2)) (Fin 1)
       [\<lparr> Perf_Country = ''A'', Perf_Transport_Type = ''Bus'', Performance_Score = Fin 140,
          Sum_Annual_Usage = 250, Mean_Satisfaction = Fin (9 / 2),
          Mean_CO2_Emissions = Fin 1 \<rparr>]))
   \<and> \<not> (\<exists>g. Declining_Usage g \<in> set (insights (Fin 12) (Fin (9 / 2)) (Fin 1)
       [\<lparr> Perf_Country = ''A'', Perf_Transport_Type = ''Bus'', Performance_Score = Fin 140,
          Sum_Annual_Usage = 250, Mean_Satisfaction = Fin (9 / 2),
          Mean_CO2_Emissions = Fin 1 \<rparr>]))
   \<and> best_transport
       [\<lparr> Perf_Country = ''A'', Perf_Transport_Type = ''Bus'', Performance_Score = Fin 140,
          Sum_Annual_Usage = 250, Mean_Satisfaction = Fin (9 / 2),
          Mean_CO2_Emissions = Fin 1 \<rparr>] = ''Bus''"
  using insights_rules [of "Fin 12" "Fin (9 / 2)" "Fin 1"
       "[\<lparr> Perf_Country = ''A'', Perf_Transport_Type = ''Bus'', Performance_Score = Fin 140,
          Sum_Annual_Usage = 250, Mean_Satisfaction = Fin (9 / 2),
          Mean_CO2_Emissions = Fin 1 \<rparr>]"]
  by (simp add: xgreater_def)

section \<open>Ratios with a zero denominator\<close>











section \<open>Rounding and the derived ratios\<close>





section \<open>The sort\<close>






lemma mset_insert_ranked: "mset (insert_ranked tie g xs) = add_mset g (mset xs)"
  by (induction xs) simp_all



lemma mset_fold_insert_ranked:
  "mset (fold (insert_ranked tie) gs acc) = mset gs + mset acc"
  by (induction gs arbitrary: acc) (simp_all add: mset_insert_ranked)


lemma sort_values_desc_mset: "mset (sort_values_desc tie gs) = mset gs"
  by (simp add: sort_values_desc_def mset_fold_insert_ranked)



section \<open>The copy, the score column and the run\<close>

lemma frame_copy_keeps:
  "a < length h \<Longrightarrow> set_Performance_Score (h @ [h ! a]) (length h) ! a = h ! a"
  by (simp add: set_Performance_Score_def nth_append)

lemma frame_copy_take:
  "take (length h) (set_Performance_Score (h @ [x]) (length h)) = h"
  by (simp add: set_Performance_Score_def)

lemma scored_copy:
  "a < length h \<Longrightarrow>
   set_Performance_Score (h @ [h ! a]) (length h) ! length h =
     (h ! a)\<lparr> score_column := Some (map Performance_Score_row (cells (h ! a))) \<rparr>"
  by (simp add: set_Performance_Score_def nth_append)

lemma performance_benchmark_eq:
  "a < length h \<Longrightarrow>
   performance_benchmark tie h a =
     Inr (set_Performance_Score (h @ [h ! a]) (length h),
          sort_values_desc tie (map (agg_perf (zip (cells (h ! a)) (map Performance_Score_row (cells (h ! a)))))
                   (group_keys (cells (h ! a)))))"
  by (simp add: performance_benchmark_def frame_copy_def perf_groups_def scored_copy)

lemma engine_returns:
  assumes "filtered_df df p \<noteq> []"
  shows "\<exists>out. engine tie df p = Inr out
     \<and> res_top_performers out =
         sort_values_desc tie (map (agg_perf (zip (filtered_df df p)
                                 (map Performance_Score_row (filtered_df df p))))
                  (group_keys (filtered_df df p)))
     \<and> res_insights out =
         insights (growth_rate (filtered_df df p) (years p))
                  (avg_satisfaction (filtered_df df p))
                  (avg_emissions (filtered_df df p)) (res_top_performers out)
     \<and> res_display_df out = display_df (filtered_df df p)"
  using assms
  by (simp add: engine_def performance_benchmark_eq set_Performance_Score_def)

section \<open>Ranking\<close>

lemma group_key_Some:
  "(group_key r = Some (c, t)) = (Country r = Some c \<and> Transport_Type r = Some t)"
  by (auto simp: group_key_def split: option.splits)

lemma set_map_filter: "set (List.map_filter g xs) = {y. \<exists>x \<in> set xs. g x = Some y}"
  by (induction xs) (auto split: option.splits)

lemma set_group_keys: "set (group_keys f) = {k. \<exists>r \<in> set f. group_key r = Some k}"
  by (simp add: group_keys_def set_map_filter)



lemma group_keys_empty:
  "(group_keys f = []) = (\<forall>r \<in> set f. Country r = None \<or> Transport_Type r = None)"
proof -
  have "(group_keys f = []) = (set (group_keys f) = {})" by simp
  also have "\<dots> = (\<forall>r \<in> set f. \<forall>k. group_key r \<noteq> Some k)"
    by (simp add: set_group_keys) blast
  also have "\<dots> = (\<forall>r \<in> set f. group_key r = None)"
    by (simp only: not_Some_eq)
  also have "\<dots> = (\<forall>r \<in> set f. Country r = None \<or> Transport_Type r = None)"
    by (auto simp: group_key_def split: option.splits)
  finally show ?thesis .
qed


lemma agg_perf_key:
  "Perf_Country (agg_perf zs k) = fst k \<and> Perf_Transport_Type (agg_perf zs k) = snd k"
  by (simp add: agg_perf_def Let_def)





lemma missing_filtered: "filtered_df missing_df missing_params = missing_df"
  by (simp add: filtered_df_filter missing_defs)

lemma missing_groups: "group_keys missing_df = []"
  by (simp add: missing_defs group_keys_def group_key_def)




section \<open>The top performer\<close>

text \<open>
  Claim C9, as the specification states it, fails: a non-empty filtered table can have an
  empty ranking. In a table whose country cells are all missing, the filter keeps both
  rows, the grouping drops both, the ranking is empty and the top-performer insight
  carries the placeholder.
\<close>

theorem top_performer_placeholder_counterexample:
  "filtered_df missing_df missing_params = missing_df
   \<and> length missing_df = 2
   \<and> \<not> isl (engine given_order missing_df missing_params)
   \<and> res_top_performers (projr (engine given_order missing_df missing_params)) = []
   \<and> res_insights (projr (engine given_order missing_df missing_params)) =
       [Strong_Growth (Fin 50), High_Satisfaction, Eco_Friendly, Top_Performer ''N/A'']"
proof -
  have ne: "filtered_df missing_df missing_params \<noteq> []"
    by (simp add: missing_filtered) (simp add: missing_df_def)
  from engine_returns [OF ne, of given_order] obtain out where
    out: "engine given_order missing_df missing_params = Inr out"
    and tp: "res_top_performers out =
      sort_values_desc given_order
        (map (agg_perf (zip missing_df (map Performance_Score_row missing_df)))
             (group_keys missing_df))"
    and ins: "res_insights out =
      insights (growth_rate missing_df (years missing_params)) (avg_satisfaction missing_df)
        (avg_emissions missing_df) (res_top_performers out)"
    by (auto simp: missing_filtered)
  have empty: "res_top_performers out = []"
    by (simp add: tp missing_groups sort_values_desc_def)
  have gr: "growth_rate missing_df (years missing_params) = Fin 50"
    by (simp add: growth_rate_def usage_in_year_filter missing_defs)
  have sa: "avg_satisfaction missing_df = Fin (17 / 4)"
    by (simp add: avg_satisfaction_def col_mean_def missing_defs)
  have em: "avg_emissions missing_df = Fin 1"
    by (simp add: avg_emissions_def col_mean_def missing_defs)
  have "res_insights out =
      [Strong_Growth (Fin 50), High_Satisfaction, Eco_Friendly, Top_Performer ''N/A'']"
    by (simp add: ins empty gr sa em insights_def best_transport_def xgreater_def)
  with out empty missing_filtered show ?thesis
    by (simp add: missing_df_def)
qed

text \<open>
  Claim C9, amended. For a non-empty filtered table the insight list always carries the
  top-performer summary. If some filtered row has both a country and a transport type,
  the ranking is not empty, the summary names the transport type of the first ranked
  group, and that transport type occurs in the filtered table. If every filtered row
  lacks a country or a transport type, the ranking is empty and the summary carries the
  placeholder.
\<close>

theorem top_performer_present:
  assumes ne: "filtered_df df p \<noteq> []"
  shows "\<exists>out. engine tie df p = Inr out
     \<and> Top_Performer (best_transport (res_top_performers out)) \<in> set (res_insights out)
     \<and> ((\<exists>r \<in> set (filtered_df df p). Country r \<noteq> None \<and> Transport_Type r \<noteq> None) \<longrightarrow>
          res_top_performers out \<noteq> []
          \<and> best_transport (res_top_performers out) =
              Perf_Transport_Type (hd (res_top_performers out))
          \<and> Some (best_transport (res_top_performers out))
              \<in> Transport_Type ` set (filtered_df df p))
     \<and> ((\<forall>r \<in> set (filtered_df df p). Country r = None \<or> Transport_Type r = None) \<longrightarrow>
          res_top_performers out = []
          \<and> best_transport (res_top_performers out) = ''N/A'')"
proof -
  let ?f = "filtered_df df p"
  let ?gs = "map (agg_perf (zip ?f (map Performance_Score_row ?f))) (group_keys ?f)"
  let ?srt = "sort_values_desc tie ?gs"
  from engine_returns [OF ne, of tie] obtain out where
    out: "engine tie df p = Inr out" and tp: "res_top_performers out = ?srt"
    and ins: "res_insights out =
         insights (growth_rate ?f (years p)) (avg_satisfaction ?f) (avg_emissions ?f)
           (res_top_performers out)"
    by blast
  have ms: "mset ?srt = mset ?gs"
    by (rule sort_values_desc_mset)
  have top: "Top_Performer (best_transport ?srt) \<in> set (res_insights out)"
    by (simp add: ins tp insights_def)
  have present: "(\<exists>r \<in> set ?f. Country r \<noteq> None \<and> Transport_Type r \<noteq> None) \<longrightarrow>
      ?srt \<noteq> [] \<and> best_transport ?srt = Perf_Transport_Type (hd ?srt)
      \<and> Some (best_transport ?srt) \<in> Transport_Type ` set ?f"
  proof
    assume "\<exists>r \<in> set ?f. Country r \<noteq> None \<and> Transport_Type r \<noteq> None"
    then have "group_keys ?f \<noteq> []"
      by (auto simp: group_keys_empty)
    then have "?gs \<noteq> []" by simp
    with ms have nonempty: "?srt \<noteq> []" by (metis mset_zero_iff)
    then obtain g rest where gr: "?srt = g # rest" by (cases ?srt) auto
    then have "g \<in> set ?gs" using mset_eq_setD [OF ms] by (metis list.set_intros(1))
    then obtain k where k: "k \<in> set (group_keys ?f)"
      and g: "g = agg_perf (zip ?f (map Performance_Score_row ?f)) k"
      by auto
    from k obtain r where r: "r \<in> set ?f" and kr: "group_key r = Some k"
      by (auto simp: set_group_keys)
    from kr have "Transport_Type r = Some (snd k)"
      by (cases k) (simp add: group_key_Some)
    then have "Some (Perf_Transport_Type g) = Transport_Type r"
      by (simp add: g agg_perf_key)
    with r have pres: "Some (Perf_Transport_Type g) \<in> Transport_Type ` set ?f"
      by (metis imageI)
    have bt: "best_transport ?srt = Perf_Transport_Type g"
      by (simp add: gr best_transport_def)
    from nonempty gr bt pres
    show "?srt \<noteq> [] \<and> best_transport ?srt = Perf_Transport_Type (hd ?srt)
      \<and> Some (best_transport ?srt) \<in> Transport_Type ` set ?f"
      by simp
  qed
  have absent: "(\<forall>r \<in> set ?f. Country r = None \<or> Transport_Type r = None) \<longrightarrow>
      ?srt = [] \<and> best_transport ?srt = ''N/A''"
  proof
    assume "\<forall>r \<in> set ?f. Country r = None \<or> Transport_Type r = None"
    then have "group_keys ?f = []"
      by (simp add: group_keys_empty)
    then have "?srt = []"
      by (simp add: sort_values_desc_def)
    then show "?srt = [] \<and> best_transport ?srt = ''N/A''"
      by (simp add: best_transport_def)
  qed
  from out top present absent
  have "engine tie df p = Inr out
     \<and> Top_Performer (best_transport ?srt) \<in> set (res_insights out)
     \<and> ((\<exists>r \<in> set ?f. Country r \<noteq> None \<and> Transport_Type r \<noteq> None) \<longrightarrow>
          ?srt \<noteq> [] \<and> best_transport ?srt = Perf_Transport_Type (hd ?srt)
          \<and> Some (best_transport ?srt) \<in> Transport_Type ` set ?f)
     \<and> ((\<forall>r \<in> set ?f. Country r = None \<or> Transport_Type r = None) \<longrightarrow>
          ?srt = [] \<and> best_transport ?srt = ''N/A'')"
    by blast
  then show ?thesis
    unfolding tp [symmetric] by (rule exI)
qed

theorem top_performer_present_witness:
  "filtered_df example_df all_params \<noteq> []
   \<and> (\<exists>out. engine given_order example_df all_params = Inr out
         \<and> res_top_performers out \<noteq> []
         \<and> best_transport (res_top_performers out) \<in> {''Bus'', ''Rail''})
   \<and> filtered_df missing_df missing_params \<noteq> []
   \<and> (\<exists>out. engine given_order missing_df missing_params = Inr out
         \<and> res_top_performers out = []
         \<and> best_transport (res_top_performers out) = ''N/A'')"
proof -
  have f: "filtered_df example_df all_params = example_df"
    by (simp add: filtered_df_filter example_defs)
  have ne: "filtered_df example_df all_params \<noteq> []"
    by (simp add: f) (simp add: example_df_def)
  have some: "\<exists>r \<in> set (filtered_df example_df all_params).
      Country r \<noteq> None \<and> Transport_Type r \<noteq> None"
    by (simp add: f) (simp add: example_defs)
  have tt: "Transport_Type ` set (filtered_df example_df all_params) =
      {Some ''Bus'', Some ''Rail''}"
    by (simp add: f) (auto simp: example_defs)
  have ne2: "filtered_df missing_df missing_params \<noteq> []"
    by (simp add: missing_filtered) (simp add: missing_df_def)
  have none: "\<forall>r \<in> set (filtered_df missing_df missing_params).
      Country r = None \<or> Transport_Type r = None"
    by (simp add: missing_filtered) (simp add: missing_defs)
  from top_performer_present [OF ne, of given_order] some tt
  have a: "\<exists>out. engine given_order example_df all_params = Inr out
         \<and> res_top_performers out \<noteq> []
         \<and> best_transport (res_top_performers out) \<in> {''Bus'', ''Rail''}"
    by auto
  from top_performer_present [OF ne2, of given_order] none
  have b: "\<exists>out. engine given_order missing_df missing_params = Inr out
         \<and> res_top_performers out = []
         \<and> best_transport (res_top_performers out) = ''N/A''"
    by auto
  from a b ne ne2 show ?thesis by blast
qed

section \<open>The filtered table is left as it was\<close>

lemma in_place_would_change:
  "a < length h \<Longrightarrow> score_column (set_Performance_Score h a ! a) \<noteq> None"
  by (simp add: set_Performance_Score_def)

text \<open>
  Claim C10. Lines 177 to 188 work on a copy: in the heap they return, the object that
  \<^verbatim>\<open>filtered_df\<close> refers to is the same frame as before (same cells, no score column
  added), as is every other object that existed before; the detailed table of a run is
  therefore the detailed table of the filtered table as the filter produced it.
\<close>

theorem scorer_leaves_filtered_df:
  "(a < length h \<longrightarrow>
      (\<exists>h' tp. performance_benchmark tie h a = Inr (h', tp)
          \<and> h' ! a = h ! a \<and> take (length h) h' = h))
   \<and> (filtered_df df p \<noteq> [] \<longrightarrow>
      (\<exists>out. engine tie df p = Inr out
          \<and> res_display_df out = display_df (filtered_df df p)))"
proof -
  have heap: "a < length h \<longrightarrow>
      (\<exists>h' tp. performance_benchmark tie h a = Inr (h', tp)
          \<and> h' ! a = h ! a \<and> take (length h) h' = h)"
    by (simp add: performance_benchmark_eq frame_copy_keeps frame_copy_take)
  have run: "filtered_df df p \<noteq> [] \<longrightarrow>
      (\<exists>out. engine tie df p = Inr out
          \<and> res_display_df out = display_df (filtered_df df p))"
    using engine_returns [of df p tie] by blast
  from heap run show ?thesis by blast
qed

theorem scorer_leaves_filtered_df_witness:
  "(\<exists>h' tp. performance_benchmark given_order
        [\<lparr> cells = example_df, score_column = None \<rparr>,
         \<lparr> cells = filtered_df example_df all_params, score_column = None \<rparr>] 1 = Inr (h', tp)
      \<and> h' ! 1 = \<lparr> cells = filtered_df example_df all_params, score_column = None \<rparr>)
   \<and> filtered_df example_df all_params \<noteq> []
   \<and> (\<exists>out. engine given_order example_df all_params = Inr out
          \<and> res_display_df out = display_df (filtered_df example_df all_params))"
proof -
  have ne: "filtered_df example_df all_params \<noteq> []"
    by (simp add: filtered_df_filter example_defs)
  from scorer_leaves_filtered_df [of 1
      "[\<lparr> cells = example_df, score_column = None \<rparr>,
        \<lparr> cells = filtered_df example_df all_params, score_column = None \<rparr>]"
      given_order example_df all_params] ne
  show ?thesis by auto
qed

end
